theory Spec2Isabelle
  imports Main
begin

section \<open>JavaScript strings\<close>

text \<open>
  The program is a Telegram bot, \<^verbatim>\<open>index.js\<close>: a dialogue in two scenes that collects an
  identifier and a reason, and a function \<^verbatim>\<open>generateReport\<close> that classifies the identifier
  and sends a report. Line numbers are those of \<^verbatim>\<open>index.js\<close>. The repository's second file is
  an earlier version of the same program; its \<^verbatim>\<open>generateReport\<close> has no lookup and prints the
  user's explanation.

  JavaScript strings are modelled as \<^typ>\<open>string\<close>, the text in its UTF-8 encoding, one
  \<^typ>\<open>char\<close> per byte. Every test the program makes (\<^verbatim>\<open>startsWith\<close>, \<^verbatim>\<open>includes\<close>, \<^verbatim>\<open>split\<close>,
  \<^verbatim>\<open>substring(1)\<close> after an \<^verbatim>\<open>@\<close>) compares with ASCII text, so it gives the same answer on
  bytes as on UTF-16 code units. Two library functions look at non-ASCII characters and
  are modelled on ASCII only: \<^verbatim>\<open>trim\<close> strips the six ASCII white space characters, and
  \<^verbatim>\<open>toUpperCase\<close> maps \<^verbatim>\<open>a\<close>..\<^verbatim>\<open>z\<close> and leaves every other byte as it is.
\<close>

definition startsWith :: "string \<Rightarrow> string \<Rightarrow> bool" where
  "startsWith s p = (take (length p) s = p)"

fun includes_str :: "string \<Rightarrow> string \<Rightarrow> bool" where
  "includes_str [] p = (p = [])"
| "includes_str (c # cs) p = (startsWith (c # cs) p \<or> includes_str cs p)"

text \<open>\<^verbatim>\<open>s.split(sep)\<close> for a separator of one character; the result is never empty.\<close>

fun split_js :: "char \<Rightarrow> string \<Rightarrow> string list" where
  "split_js sep [] = [[]]"
| "split_js sep (c # cs) =
     (if c = sep then [] # split_js sep cs
      else (case split_js sep cs of [] \<Rightarrow> [[c]] | w # ws \<Rightarrow> (c # w) # ws))"

definition join_js :: "char \<Rightarrow> string list \<Rightarrow> string" where
  "join_js sep ws = (case ws of [] \<Rightarrow> [] | w # r \<Rightarrow> w @ concat (map (\<lambda>x. sep # x) r))"

text \<open>\<^verbatim>\<open>s.substring(1)\<close> and \<^verbatim>\<open>s.slice(1)\<close>: the string without its first character.\<close>

definition substring1 :: "string \<Rightarrow> string" where
  "substring1 s = drop 1 s"

definition is_space :: "char \<Rightarrow> bool" where
  "is_space c = (c \<in> set [CHR '' '', CHR 0x09, CHR 0x0A, CHR 0x0B, CHR 0x0C, CHR 0x0D])"

definition trim :: "string \<Rightarrow> string" where
  "trim s = rev (dropWhile is_space (rev (dropWhile is_space s)))"

text \<open>
  \<^verbatim>\<open>x || d\<close> on a session field or a field of the resolver's answer: the field is
  \<^verbatim>\<open>undefined\<close> (\<open>None\<close>) or a string, and the empty string is falsy as well.
\<close>

fun or_else :: "string option \<Rightarrow> string \<Rightarrow> string" where
  "or_else None d = d"
| "or_else (Some s) d = (if s = [] then d else s)"

subsection \<open>Numbers read from strings\<close>

definition is_digit :: "char \<Rightarrow> bool" where
  "is_digit c = (c \<in> set ''0123456789'')"

definition is_hex_digit :: "char \<Rightarrow> bool" where
  "is_hex_digit c = (c \<in> set ''0123456789abcdefABCDEF'')"

text \<open>
  \<^verbatim>\<open>isNaN(s)\<close> on a string converts it with \<^verbatim>\<open>Number(s)\<close>: white space is trimmed, the empty
  string is 0, and the rest must be a \<^verbatim>\<open>StrNumericLiteral\<close>: a decimal literal with an
  optional sign (\<^verbatim>\<open>Infinity\<close>, digits with an optional fraction and exponent), or an unsigned
  \<^verbatim>\<open>0x\<close>, \<^verbatim>\<open>0o\<close> or \<^verbatim>\<open>0b\<close> integer.
\<close>

definition exponent_part :: "string \<Rightarrow> bool" where
  "exponent_part r =
     (case r of [] \<Rightarrow> True
      | c # r' \<Rightarrow> (c = CHR ''e'' \<or> c = CHR ''E'') \<and>
          (let d = (case r' of [] \<Rightarrow> []
                    | sg # r'' \<Rightarrow> if sg = CHR ''+'' \<or> sg = CHR ''-'' then r'' else r')
           in d \<noteq> [] \<and> list_all is_digit d))"

definition unsigned_decimal :: "string \<Rightarrow> bool" where
  "unsigned_decimal s =
     (s = ''Infinity'' \<or>
      (let ip = takeWhile is_digit s; r = dropWhile is_digit s in
       case r of [] \<Rightarrow> ip \<noteq> []
       | c # r' \<Rightarrow>
          if c = CHR ''.'' then
            (let fp = takeWhile is_digit r'; r'' = dropWhile is_digit r'
             in (ip \<noteq> [] \<or> fp \<noteq> []) \<and> exponent_part r'')
          else ip \<noteq> [] \<and> exponent_part r))"

definition non_decimal :: "string \<Rightarrow> bool" where
  "non_decimal s =
     (let p = take 2 s; d = drop 2 s in
      d \<noteq> [] \<and>
      ((p \<in> set [''0x'', ''0X''] \<and> list_all is_hex_digit d) \<or>
       (p \<in> set [''0o'', ''0O''] \<and> list_all (\<lambda>c. c \<in> set ''01234567'') d) \<or>
       (p \<in> set [''0b'', ''0B''] \<and> list_all (\<lambda>c. c \<in> set ''01'') d)))"

definition isNaN :: "string \<Rightarrow> bool" where
  "isNaN s =
     (let t = trim s in
      \<not> (t = [] \<or> non_decimal t \<or>
         (case t of [] \<Rightarrow> False
          | c # u \<Rightarrow> if c = CHR ''+'' \<or> c = CHR ''-'' then unsigned_decimal u
                     else unsigned_decimal t)))"

text \<open>
  \<^verbatim>\<open>parseInt(s)\<close> with no radix: leading white space and a sign are skipped, \<^verbatim>\<open>0x\<close> selects
  radix 16, and the longest run of digits is read; with no digit the result is \<^verbatim>\<open>NaN\<close>
  (\<open>None\<close>). The value is the exact integer: the rounding of a JavaScript number beyond
  \<open>2^53\<close> is not modelled.
\<close>

definition digit_val :: "char \<Rightarrow> nat" where
  "digit_val c =
     (case map_of (zip ''0123456789abcdefABCDEF''
                       [0, 1, 2, 3, 4, 5, 6, 7, 8, 9, 10, 11, 12, 13, 14, 15, 10, 11, 12, 13, 14, 15]) c
      of None \<Rightarrow> 0 | Some v \<Rightarrow> v)"

definition digits_val :: "nat \<Rightarrow> string \<Rightarrow> nat" where
  "digits_val radix ds = foldl (\<lambda>acc c. acc * radix + digit_val c) 0 ds"

definition parseInt :: "string \<Rightarrow> int option" where
  "parseInt s =
     (let t = dropWhile is_space s;
          neg = startsWith t ''-'';
          u = (if startsWith t ''+'' \<or> startsWith t ''-'' then drop 1 t else t);
          hex = (startsWith u ''0x'' \<or> startsWith u ''0X'');
          v = (if hex then drop 2 u else u);
          z = (if hex then takeWhile is_hex_digit v else takeWhile is_digit v)
      in if z = [] then None
         else Some ((if neg then - 1 else 1) * int (digits_val (if hex then 16 else 10) z)))"

text \<open>A JavaScript integer written in a template string: decimal digits, with a minus sign.\<close>

fun nat_digits :: "nat \<Rightarrow> string" where
  "nat_digits n =
     (if n < 10 then [''0123456789'' ! n]
      else nat_digits (n div 10) @ [''0123456789'' ! (n mod 10)])"

declare nat_digits.simps [simp del]

definition int_to_string :: "int \<Rightarrow> string" where
  "int_to_string i = (if i < 0 then CHR ''-'' # nat_digits (nat (- i)) else nat_digits (nat i))"

section \<open>The entity classifier\<close>

text \<open>
  The classifier is the first half of \<^verbatim>\<open>generateReport\<close> (\<^verbatim>\<open>index.js\<close>, lines 89 to 152): three
  local variables with defaults, a \<^verbatim>\<open>try\<close> block that asks Telegram with \<^verbatim>\<open>getChat\<close>, and a
  \<^verbatim>\<open>catch\<close> block that looks at the shape of the string instead.

  \<^verbatim>\<open>chat_id\<close> holds the placeholder string or the number that the resolver returned.
\<close>

datatype js_value = Str string | Num int

fun to_string :: "js_value \<Rightarrow> string" where
  "to_string (Str s) = s"
| "to_string (Num i) = int_to_string i"

record classification =
  chatType :: string
  chatTitle :: string
  chat_id :: js_value

text \<open>
  The resolver is \<^verbatim>\<open>ctx.telegram.getChat\<close>, a collaborator outside the program. It is a
  parameter of the model: given the identifier it either fails with an error whose
  \<^verbatim>\<open>message\<close> is a string (\<open>Inl\<close>) or returns the chat's record. The identifier is a string or
  the number that \<^verbatim>\<open>parseInt\<close> read.
\<close>

datatype chat_identifier = IdStr string | IdNum "int option"

record chatInfo =
  info_id :: int
  info_title :: "string option"
  info_type :: string
  info_username :: "string option"
  info_is_bot :: "bool option"

type_synonym resolver = "chat_identifier \<Rightarrow> string + chatInfo"

definition defaults :: classification where
  "defaults = \<lparr>chatType = ''Unknown'', chatTitle = ''None'',
               chat_id = Str ''None (Please find using @userinfobot or similar)''\<rparr>"

text \<open>
  Lines 97 to 112: the identifier handed to \<^verbatim>\<open>getChat\<close>, or the \<^verbatim>\<open>Error\<close> thrown before the
  call. \<^verbatim>\<open>parts[parts.length - 1]\<close> is the last element of a list that is never empty.
\<close>

definition chatIdentifier :: "string \<Rightarrow> string + chat_identifier" where
  "chatIdentifier link =
     (if startsWith link ''https://t.me/'' then
        (let lastPart = last (split_js CHR ''/'' link) in
         if startsWith lastPart ''+'' then
           Inl ''Cannot get info for private invite links directly.''
         else Inr (IdStr (if startsWith lastPart ''@'' then lastPart else CHR ''@'' # lastPart)))
      else if \<not> startsWith link ''@'' \<and> \<not> isNaN link then Inr (IdNum (parseInt link))
      else if \<not> startsWith link ''@'' then
        Inl ''Invalid format for direct chat lookup. Please use @username or a numeric ID.''
      else Inr (IdStr link))"

text \<open>Lines 118 to 129: the classification read from the resolver's answer.\<close>

definition from_chatInfo :: "chatInfo \<Rightarrow> classification" where
  "from_chatInfo info =
     \<lparr>chatType =
        (if info_type info = ''channel'' then ''Channel''
         else if info_type info = ''group'' \<or> info_type info = ''supergroup'' then ''Group''
         else if info_type info = ''private'' then ''Private Chat (User)''
         else if or_else (info_username info) [] \<noteq> [] \<and> info_is_bot info = Some True then ''Bot''
         else chatType defaults),
      chatTitle = or_else (info_title info) ''None'',
      chat_id = Num (info_id info)\<rparr>"

text \<open>
  The \<^verbatim>\<open>try\<close> block, lines 96 to 130. Every \<^verbatim>\<open>throw\<close> happens before the first assignment to
  the three variables, so a failure leaves them at their defaults.
\<close>

definition try_block :: "resolver \<Rightarrow> string \<Rightarrow> string + classification" where
  "try_block getChat link =
     (case chatIdentifier link of
        Inl message \<Rightarrow> Inl message
      | Inr ident \<Rightarrow>
          (case getChat ident of
             Inl message \<Rightarrow> Inl message
           | Inr info \<Rightarrow> Inr (from_chatInfo info)))"

text \<open>The \<^verbatim>\<open>catch\<close> block, lines 131 to 152: the heuristic on the shape of the string.\<close>

definition catch_block :: "string \<Rightarrow> classification" where
  "catch_block link =
     (if includes_str link ''t.me/joinchat'' then defaults\<lparr>chatType := ''Group''\<rparr>
      else if includes_str link ''t.me/'' then
        (if startsWith link ''https://t.me/'' then
           (let lastPart = last (split_js CHR ''/'' link) in
            if startsWith lastPart ''@'' then
              defaults\<lparr>chatType := ''Bot/Channel (Username)'', chatTitle := substring1 lastPart\<rparr>
            else if lastPart \<noteq> [] then
              defaults\<lparr>chatType := ''Bot/Channel (Link)'', chatTitle := lastPart\<rparr>
            else defaults)
         else if startsWith link ''@'' then
           defaults\<lparr>chatType := ''Bot/Channel (Username)'', chatTitle := substring1 link\<rparr>
         else defaults)
      else defaults)"

definition classify :: "resolver \<Rightarrow> string \<Rightarrow> classification" where
  "classify getChat link =
     (case try_block getChat link of
        Inr c \<Rightarrow> c
      | Inl message \<Rightarrow> catch_block link)"

text \<open>A resolver that finds no chat, as Telegram answers for a name it does not know.\<close>

definition chat_not_found :: resolver where
  "chat_not_found ident = Inl ''400: Bad Request: chat not found''"

section \<open>The report\<close>

text \<open>
  Lines 155 to 168 of \<^verbatim>\<open>generateReport\<close>: the template, one list element for each line of the
  source's concatenation. The emoji of the template are written as their UTF-8 bytes.
\<close>

definition nl :: string where
  "nl = [CHR 0x0A]"

definition emoji_memo :: string where
  "emoji_memo = [CHR 0xF0, CHR 0x9F, CHR 0x93, CHR 0x9D]"

definition emoji_speech :: string where
  "emoji_speech = [CHR 0xF0, CHR 0x9F, CHR 0x97, CHR 0xA8, CHR 0xEF, CHR 0xB8, CHR 0x8F]"

definition emoji_map :: string where
  "emoji_map = [CHR 0xF0, CHR 0x9F, CHR 0x97, CHR 0xBA, CHR 0xEF, CHR 0xB8, CHR 0x8F]"

definition emoji_phone :: string where
  "emoji_phone = [CHR 0xF0, CHR 0x9F, CHR 0x93, CHR 0x9E]"

definition emoji_mail :: string where
  "emoji_mail = [CHR 0xF0, CHR 0x9F, CHR 0x93, CHR 0xA7]"

definition emoji_check :: string where
  "emoji_check = [CHR 0xE2, CHR 0x9C, CHR 0x85]"

definition emoji_arrow :: string where
  "emoji_arrow = [CHR 0xE2, CHR 0x9E, CHR 0xA1, CHR 0xEF, CHR 0xB8, CHR 0x8F]"

definition boilerplate :: string where
  "boilerplate =
     ''This content shared in this public bot includes spam for illegal channels that '' @
     ''contain illegal images or videos. If a telegram user joins all the channels listed '' @
     ''in the bot Once started, they will be sent illegal images or videos. It also '' @
     ''violates Telegram'' @ [CHR 0x27] @ ''s policy on adult content, especially when such '' @
     ''content is accessible to minors and copyright infringement. It also shares a '' @
     ''phishing link used to steal personal information and to scam Telegram users and '' @
     ''steal credit cards and sensitive data.''"

definition report_lines :: "classification \<Rightarrow> string \<Rightarrow> string \<Rightarrow> string list" where
  "report_lines c link reason =
     [''<b>Report Data:</b>'' @ nl @ nl,
      ''<b>'' @ emoji_memo @ ''Text:</b> '' @ boilerplate @ nl @ nl,
      ''<b>'' @ emoji_speech @ ''Chat Type:</b> '' @ chatType c @ nl,
      ''<b>'' @ emoji_speech @ ''Chat Title:</b> '' @ chatTitle c @ nl,
      ''<b>'' @ emoji_speech @ ''Chat ID:</b> '' @ to_string (chat_id c) @ nl,
      ''<b>'' @ emoji_speech @ ''Chat Link:</b> <code>'' @ link @ ''</code>'' @ nl,
      ''<b>'' @ emoji_speech @ ''Relevant Laws:</b> '' @ reason @ nl,
      ''<b>Name:</b> Not Available'' @ nl,
      ''<b>'' @ emoji_map @ ''Address:</b> Not Available'' @ nl,
      ''<b>'' @ emoji_phone @ ''Phone Number:</b> Not Available'' @ nl,
      ''<b>'' @ emoji_mail @ ''E-Mail:</b> Not Available'' @ nl @ nl,
      ''Thank you for helping keep Telegram safe!'']"

definition reportText :: "classification \<Rightarrow> string \<Rightarrow> string \<Rightarrow> string" where
  "reportText c link reason = concat (report_lines c link reason)"

section \<open>Sessions, scenes and handlers\<close>

text \<open>
  \<^verbatim>\<open>ctx.session\<close> is a JavaScript object. Its three fields are \<^verbatim>\<open>undefined\<close> (\<open>None\<close>) or
  strings; the scene that Telegraf's stage keeps in \<^verbatim>\<open>ctx.session.__scenes.current\<close> is the
  field \<open>scene\<close>, and \<open>None\<close> there is the state Idle. The assignment
  \<^verbatim>\<open>ctx.session = {}\<close> empties the object, the scene with it.
\<close>

datatype scene_id = GetLink | GetReason

record session =
  scene :: "scene_id option"
  reportLink :: "string option"
  reasonType :: "string option"
  detailedReason :: "string option"

definition empty_session :: session where
  "empty_session = \<lparr>scene = None, reportLink = None, reasonType = None, detailedReason = None\<rparr>"

text \<open>
  What the bot sends: the calls of \<^verbatim>\<open>ctx.reply\<close> (with an inline keyboard of labelled
  callback tokens, when there is one), \<^verbatim>\<open>ctx.replyWithHTML\<close>, \<^verbatim>\<open>ctx.answerCbQuery\<close> and
  \<^verbatim>\<open>ctx.editMessageText\<close>, in order. The transport accepts every call.
\<close>

datatype reply =
    Reply string
  | ReplyKeyboard string "(string \<times> string) list"
  | ReplyWithHTML string
  | AnswerCbQuery
  | EditMessageText string

text \<open>An update from Telegram: a message with text, another message, or a button press.\<close>

datatype update = TextMessage string | OtherMessage | CallbackQuery string

text \<open>\<^verbatim>\<open>generateReport\<close>, lines 84 to 174.\<close>

definition generateReport :: "resolver \<Rightarrow> session \<Rightarrow> session \<times> reply list" where
  "generateReport getChat s =
     (let link = or_else (reportLink s) ''N/A'';
          reason = or_else (reasonType s) ''User Provided'';
          detailed = or_else (detailedReason s) ''No detailed explanation provided.'';
          c = classify getChat link;
          text = reportText c link reason
      in (empty_session, [ReplyWithHTML text]))"

text \<open>
  The same function statement by statement, to see what each part of it does to the
  state. A \<open>frame\<close> is the state while \<^verbatim>\<open>generateReport\<close> runs: \<^verbatim>\<open>ctx.session\<close>, the local
  variables, and the replies sent so far. Lines 85 to 91 read the session into the
  variables; lines 96 to 152 classify; lines 155 to 170, the synthesizer, build the text
  from the variables and send it; line 173 empties the session.
\<close>

record frame =
  ctx_session :: session
  var_reportLink :: string
  var_reasonType :: string
  var_detailedReason :: string
  var_class :: classification
  outbox :: "reply list"

definition read_session :: "session \<Rightarrow> frame" where
  "read_session s =
     \<lparr>ctx_session = s,
      var_reportLink = or_else (reportLink s) ''N/A'',
      var_reasonType = or_else (reasonType s) ''User Provided'',
      var_detailedReason = or_else (detailedReason s) ''No detailed explanation provided.'',
      var_class = defaults,
      outbox = []\<rparr>"

definition classify_step :: "resolver \<Rightarrow> frame \<Rightarrow> frame" where
  "classify_step getChat f = f\<lparr>var_class := classify getChat (var_reportLink f)\<rparr>"

definition synthesize :: "frame \<Rightarrow> frame" where
  "synthesize f =
     f\<lparr>outbox := outbox f @
          [ReplyWithHTML (reportText (var_class f) (var_reportLink f) (var_reasonType f))]\<rparr>"

definition clear_session :: "frame \<Rightarrow> frame" where
  "clear_session f = f\<lparr>ctx_session := empty_session\<rparr>"

text \<open>
  \<^verbatim>\<open>ctx.scene.leave()\<close> forgets the current scene; \<^verbatim>\<open>ctx.scene.enter(id)\<close> leaves, makes \<^verbatim>\<open>id\<close>
  the current scene and runs its \<^verbatim>\<open>enter\<close> handler. Only \<^verbatim>\<open>getLink\<close> has one (line 33).
  Neither touches the other fields of the session.
\<close>

definition leave :: "session \<Rightarrow> session" where
  "leave s = s\<lparr>scene := None\<rparr>"

definition enter :: "scene_id \<Rightarrow> session \<Rightarrow> session \<times> reply list" where
  "enter sc s =
     ((leave s)\<lparr>scene := Some sc\<rparr>,
      (case sc of
         GetLink \<Rightarrow>
           [Reply (emoji_check @ '' Session created! '' @ nl @ nl @
             '' Please provide the @username (e.g., @iPapkornBot) or a direct link '' @
             ''(e.g., https://t.me/channelname) to the channel/group/bot you wish to report.'')]
       | GetReason \<Rightarrow> []))"

definition keyboard :: "(string \<times> string) list" where
  "keyboard =
     [(''Spam/Scam'', ''reason_spam''),
      (''Illegal Content/Copyright Infringement'', ''reason_illegal_content''),
      (''Phishing/Malware'', ''reason_phishing''),
      (''Adult Content (Violates TOS)'', ''reason_adult_content''),
      (''Other (I'' @ [CHR 0x27] @ ''ll type it)'', ''reason_other'')]"

text \<open>
  A handler answers \<open>Some\<close> when it takes the update, which ends the chain of middleware,
  and \<open>None\<close> when the update matches none of its filters and goes on to the next one.
  Telegraf's filter \<^verbatim>\<open>text\<close> takes every message that has a text, a command included;
  \<^verbatim>\<open>message\<close> takes every message; \<^verbatim>\<open>action(/reason_/)\<close> takes a button press whose token
  matches the pattern somewhere.
\<close>

definition getLinkScene :: "session \<Rightarrow> update \<Rightarrow> (session \<times> reply list) option" where
  "getLinkScene s u =
     (case u of
        TextMessage text \<Rightarrow>
          (let s1 = s\<lparr>reportLink := Some (trim text)\<rparr>;
               prompt = ReplyKeyboard
                 ''Please explain why this content is illegal under EU or EU member law:'' keyboard;
               (s2, replies) = enter GetReason s1
           in Some (s2, prompt # replies))
      | OtherMessage \<Rightarrow>
          Some (s, [Reply ''Invalid input. Please provide a valid link or username.''])
      | CallbackQuery data \<Rightarrow> None)"

text \<open>
  Line 65: the label made from a callback token. \<^verbatim>\<open>replace\<close> with a string pattern
  replaces its first occurrence, \<^verbatim>\<open>replace(/_/g, ' ')\<close> every underscore.
\<close>

fun replace_first :: "string \<Rightarrow> string \<Rightarrow> string \<Rightarrow> string" where
  "replace_first pat rep [] = (if pat = [] then rep else [])"
| "replace_first pat rep (c # cs) =
     (if startsWith (c # cs) pat then rep @ drop (length pat) (c # cs)
      else c # replace_first pat rep cs)"

definition replace_all_char :: "char \<Rightarrow> char \<Rightarrow> string \<Rightarrow> string" where
  "replace_all_char a b s = map (\<lambda>c. if c = a then b else c) s"

definition upper_char :: "char \<Rightarrow> char" where
  "upper_char c =
     (case map_of (zip ''abcdefghijklmnopqrstuvwxyz'' ''ABCDEFGHIJKLMNOPQRSTUVWXYZ'') c of
        None \<Rightarrow> c | Some u \<Rightarrow> u)"

definition lower_char :: "char \<Rightarrow> char" where
  "lower_char c =
     (case map_of (zip ''ABCDEFGHIJKLMNOPQRSTUVWXYZ'' ''abcdefghijklmnopqrstuvwxyz'') c of
        None \<Rightarrow> c | Some l \<Rightarrow> l)"

definition toUpperCase :: "string \<Rightarrow> string" where
  "toUpperCase s = map upper_char s"

definition toLowerCase :: "string \<Rightarrow> string" where
  "toLowerCase s = map lower_char s"

definition capitalize :: "string \<Rightarrow> string" where
  "capitalize word = toUpperCase (take 1 word) @ substring1 word"

definition reason_label :: "string \<Rightarrow> string" where
  "reason_label data =
     join_js CHR '' '' (map capitalize (split_js CHR '' ''
       (replace_all_char CHR ''_'' CHR '' '' (replace_first ''reason_'' [] data))))"

definition getReasonScene ::
  "resolver \<Rightarrow> session \<Rightarrow> update \<Rightarrow> (session \<times> reply list) option" where
  "getReasonScene getChat s u =
     (case u of
        CallbackQuery data \<Rightarrow>
          if includes_str data ''reason_'' then
            (if data = ''reason_other'' then
               Some (s\<lparr>reasonType := Some ''User Provided''\<rparr>,
                     [AnswerCbQuery,
                      EditMessageText ''Please type your detailed reason for the report:''])
             else
               (let label = reason_label data in
                Some (s\<lparr>reasonType := Some label\<rparr>,
                      [AnswerCbQuery,
                       EditMessageText (''You selected: '' @ label @
                         ''. Please provide a detailed explanation now.'')])))
          else None
      | TextMessage text \<Rightarrow>
          (let s1 = s\<lparr>detailedReason := Some (trim text)\<rparr>;
               (s2, replies) = generateReport getChat s1
           in Some (leave s2, replies))
      | OtherMessage \<Rightarrow>
          Some (s, [Reply
            ''Please select a reason from the options or type your detailed explanation.'']))"

text \<open>
  The handlers registered on the bot itself, lines 179 to 252, in the order of their
  registration. A command is recognised from the \<^verbatim>\<open>bot_command\<close> entity that Telegram puts
  on a text starting with a slash: the entity runs over letters, digits, underscores and
  an \<^verbatim>\<open>@botname\<close> suffix, and Telegraf compares it with the name of the command.
\<close>

definition entity_char :: "char \<Rightarrow> bool" where
  "entity_char c =
     (c \<in> set ''abcdefghijklmnopqrstuvwxyzABCDEFGHIJKLMNOPQRSTUVWXYZ0123456789_@'')"

definition is_command :: "string \<Rightarrow> string \<Rightarrow> bool" where
  "is_command name text =
     (case text of [] \<Rightarrow> False
      | c # rest \<Rightarrow> c = CHR ''/'' \<and> takeWhile entity_char rest = name)"

definition welcomeMessage :: "string option \<Rightarrow> string" where
  "welcomeMessage first_name =
     ''Hello '' @ or_else first_name ''there'' @ ''!'' @ nl @ nl @
     ''I am your Telegram Report Bot. I can help you generate reports for '' @
     ''illegal bots, channels, or groups on Telegram.'' @ nl @ nl @
     ''Here'' @ [CHR 0x27] @ ''s what I can do:'' @ nl @
     emoji_arrow @ '' /report - Start the process to generate a report.'' @ nl @
     emoji_arrow @ '' /help - Get more information about how to use me.'' @ nl @ nl @
     ''Let'' @ [CHR 0x27] @ ''s make Telegram a safer place!''"

definition helpText :: string where
  "helpText =
     ''<b>How to use this bot:</b>'' @ nl @ nl @
     ''1. Type /report to begin.'' @ nl @
     ''2. I will ask you for the link or username of the bot/channel/group you want to report.'' @ nl @
     ''3. Provide the link (e.g., <code>https://t.me/example</code>) or username '' @
     ''(e.g., <code>@example</code>).'' @ nl @
     ''4. Next, I'' @ [CHR 0x27] @ ''ll ask for the reason for the report. You can choose from '' @
     ''predefined options or type your own detailed explanation.'' @ nl @
     ''5. I will then generate a comprehensive report for you to copy and send to Telegram'' @
     [CHR 0x27] @ ''s official support (e.g., via their in-app reporting feature or email '' @
     ''abuse@telegram.org).'' @ nl @ nl @
     ''Remember to be as detailed as possible in your explanation to help Telegram '' @
     ''investigate effectively.''"

definition greetings :: "string list" where
  "greetings = [''hi'', ''hello'', ''hey'', ''hii'', ''helo'', ''hola'']"

definition bot_handlers :: "string option \<Rightarrow> session \<Rightarrow> update \<Rightarrow> session \<times> reply list" where
  "bot_handlers first_name s u =
     (case u of
        TextMessage text \<Rightarrow>
          if is_command ''start'' text then (s, [ReplyWithHTML (welcomeMessage first_name)])
          else if is_command ''help'' text then (s, [ReplyWithHTML helpText])
          else if is_command ''report'' text then enter GetLink s
          else if is_command ''cancel'' text then
            (leave empty_session,
             [Reply ''Report generation canceled. You can start a new one anytime with /report.''])
          else if scene s \<noteq> None then (s, [])
          else if text = [] then (s, [])
          else if toLowerCase text \<in> set greetings then
            (s, [ReplyWithHTML (welcomeMessage first_name)])
          else (s, [Reply (''I didn'' @ [CHR 0x27] @
                  ''t understand that. Please use /start, /help, or /report.'')])
      | OtherMessage \<Rightarrow> (s, [])
      | CallbackQuery data \<Rightarrow> (s, []))"

text \<open>
  One update through the middleware, in the order of lines 80 and 81 and of the handlers
  after them: the session, then the stage, which hands the update to the current scene
  when there is one, and only then the handlers of the bot.
\<close>

definition handle :: "resolver \<Rightarrow> string option \<Rightarrow> session \<Rightarrow> update \<Rightarrow> session \<times> reply list" where
  "handle getChat first_name s u =
     (case (case scene s of
              None \<Rightarrow> None
            | Some GetLink \<Rightarrow> getLinkScene s u
            | Some GetReason \<Rightarrow> getReasonScene getChat s u)
      of Some result \<Rightarrow> result
       | None \<Rightarrow> bot_handlers first_name s u)"

text \<open>A conversation: the updates of one user in order, with everything the bot sent.\<close>

fun run :: "resolver \<Rightarrow> string option \<Rightarrow> session \<Rightarrow> update list \<Rightarrow> session \<times> reply list" where
  "run getChat first_name s [] = (s, [])"
| "run getChat first_name s (u # us) =
     (let (s1, replies1) = handle getChat first_name s u;
          (s2, replies2) = run getChat first_name s1 us
      in (s2, replies1 @ replies2))"

section \<open>Definitions for stating the properties\<close>

text \<open>A resolver that answers every identifier with the same record.\<close>

definition found_chat :: "chatInfo \<Rightarrow> resolver" where
  "found_chat info ident = Inr info"

text \<open>
  The label of a category token in the words of the specification, to compare with
  \<open>reason_label\<close>: after the prefix \<^verbatim>\<open>reason_\<close>, every separator becomes a space and the
  first letter of every word is capitalised. One pass over the token; the flag says
  whether the next character starts a word.
\<close>

fun spec_words :: "bool \<Rightarrow> string \<Rightarrow> string" where
  "spec_words first [] = []"
| "spec_words first (c # cs) =
     (if c = CHR ''_'' \<or> c = CHR '' '' then CHR '' '' # spec_words True cs
      else (if first then upper_char c else c) # spec_words False cs)"

definition spec_label :: "string \<Rightarrow> string" where
  "spec_label token = spec_words True (drop (length ''reason_'') token)"

section \<open>Facts about the string functions\<close>

lemma split_js_not_empty: "split_js sep s \<noteq> []"
  by (induction s) (auto split: list.splits)

text \<open>A string that JavaScript reads as a number holds no slash, so it is no link.\<close>

lemma dropWhile_keeps:
  "x \<in> set s \<Longrightarrow> \<not> P x \<Longrightarrow> x \<in> set (dropWhile P s)"
  by (induction s) auto

lemma trim_keeps: "x \<in> set s \<Longrightarrow> \<not> is_space x \<Longrightarrow> x \<in> set (trim s)"
  unfolding trim_def using dropWhile_keeps [of x _ is_space] by (metis set_rev)

lemma slash_plain:
  "\<not> is_space CHR ''/''" "\<not> is_digit CHR ''/''" "\<not> is_hex_digit CHR ''/''"
  by (simp_all add: is_space_def is_digit_def is_hex_digit_def)

lemma digits_no_slash: "list_all is_digit d \<Longrightarrow> CHR ''/'' \<notin> set d"
  using slash_plain(2) by (auto simp: list_all_iff)

lemma exponent_part_no_slash:
  assumes "exponent_part r"
  shows "CHR ''/'' \<notin> set r"
proof (cases r)
  case Nil
  then show ?thesis by simp
next
  case (Cons c r')
  with assms have c: "c = CHR ''e'' \<or> c = CHR ''E''"
    by (simp add: exponent_part_def)
  show ?thesis
  proof (cases r')
    case Nil
    with Cons c show ?thesis by auto
  next
    case inner: (Cons sg r'')
    show ?thesis
    proof (cases "sg = CHR ''+'' \<or> sg = CHR ''-''")
      case True
      with assms Cons inner have "list_all is_digit r''"
        by (simp add: exponent_part_def)
      then have "CHR ''/'' \<notin> set r''" by (rule digits_no_slash)
      with Cons inner c True show ?thesis by auto
    next
      case False
      with assms Cons inner have "list_all is_digit r'"
        by (simp add: exponent_part_def)
      then have "CHR ''/'' \<notin> set r'" by (rule digits_no_slash)
      with Cons c show ?thesis by auto
    qed
  qed
qed

lemma unsigned_decimal_no_slash:
  assumes "unsigned_decimal s"
  shows "CHR ''/'' \<notin> set s"
proof
  assume in_s: "CHR ''/'' \<in> set s"
  then have not_inf: "s \<noteq> ''Infinity''" by auto
  from in_s have in_r: "CHR ''/'' \<in> set (dropWhile is_digit s)"
    by (rule dropWhile_keeps) (rule slash_plain)
  show False
  proof (cases "dropWhile is_digit s")
    case Nil
    with in_r show False by simp
  next
    case (Cons c r')
    show False
    proof (cases "c = CHR ''.''")
      case True
      with Cons in_r have "CHR ''/'' \<in> set r'" by auto
      then have "CHR ''/'' \<in> set (dropWhile is_digit r')"
        by (rule dropWhile_keeps) (rule slash_plain)
      moreover from assms not_inf Cons True have "exponent_part (dropWhile is_digit r')"
        by (simp add: unsigned_decimal_def Let_def)
      ultimately show False using exponent_part_no_slash by blast
    next
      case False
      with assms not_inf Cons have "exponent_part (dropWhile is_digit s)"
        by (simp add: unsigned_decimal_def Let_def)
      with in_r show False using exponent_part_no_slash by blast
    qed
  qed
qed

lemma non_decimal_no_slash:
  assumes "non_decimal s"
  shows "CHR ''/'' \<notin> set s"
proof -
  have "set s = set (take 2 s) \<union> set (drop 2 s)"
    by (metis append_take_drop_id set_append)
  moreover from assms have "CHR ''/'' \<notin> set (take 2 s)"
    by (auto simp: non_decimal_def Let_def)
  moreover from assms have "CHR ''/'' \<notin> set (drop 2 s)"
    by (auto simp: non_decimal_def Let_def list_all_iff is_hex_digit_def)
  ultimately show ?thesis by simp
qed

lemma numeric_no_slash:
  assumes "\<not> isNaN s"
  shows "CHR ''/'' \<notin> set s"
proof
  assume "CHR ''/'' \<in> set s"
  then have in_t: "CHR ''/'' \<in> set (trim s)"
    by (rule trim_keeps) (rule slash_plain)
  then have "trim s \<noteq> []" by auto
  with assms have "non_decimal (trim s) \<or> unsigned_decimal (trim s) \<or> unsigned_decimal (tl (trim s)) \<and> hd (trim s) \<in> {CHR ''+'', CHR ''-''}"
    by (auto simp: isNaN_def Let_def split: list.splits if_splits)
  then show False
  proof (elim disjE conjE)
    assume "non_decimal (trim s)" with in_t show False using non_decimal_no_slash by blast
  next
    assume "unsigned_decimal (trim s)" with in_t show False using unsigned_decimal_no_slash by blast
  next
    assume u: "unsigned_decimal (tl (trim s))" and h: "hd (trim s) \<in> {CHR ''+'', CHR ''-''}"
    from in_t h have "CHR ''/'' \<in> set (tl (trim s))"
      by (cases "trim s") auto
    with u show False using unsigned_decimal_no_slash by blast
  qed
qed

text \<open>What a string includes, it holds character by character.\<close>

lemma includes_str_set: "includes_str s p \<Longrightarrow> set p \<subseteq> set s"
proof (induction s)
  case Nil
  then show ?case by simp
next
  case (Cons a s)
  show ?case
  proof (cases "startsWith (a # s) p")
    case True
    then have "p = take (length p) (a # s)" by (simp add: startsWith_def)
    then show ?thesis by (metis set_take_subset)
  next
    case False
    with Cons show ?thesis by auto
  qed
qed

lemma startsWith_includes: "startsWith s p \<Longrightarrow> includes_str s p"
  by (cases s) (auto simp: startsWith_def)

lemma no_slash_no_link:
  assumes "CHR ''/'' \<notin> set link"
  shows "\<not> startsWith link ''https://t.me/''" and "\<not> includes_str link ''t.me/''"
    and "\<not> includes_str link ''t.me/joinchat''"
proof -
  show "\<not> includes_str link ''t.me/''"
    using assms includes_str_set [of link "''t.me/''"] by auto
  show "\<not> includes_str link ''t.me/joinchat''"
    using assms includes_str_set [of link "''t.me/joinchat''"] by auto
  show "\<not> startsWith link ''https://t.me/''"
    using assms includes_str_set [of link "''https://t.me/''"] startsWith_includes by fastforce
qed

text \<open>
  The label of line 65 is the label in the specification's words, for every token that
  starts with \<^verbatim>\<open>reason_\<close>.
\<close>

lemma startsWith_append: "startsWith (p @ r) p"
  by (simp add: startsWith_def)

lemma replace_first_prefix: "replace_first p [] (p @ r) = r"
proof (cases "p @ r")
  case Nil
  then show ?thesis by simp
next
  case (Cons c cs)
  have "startsWith (c # cs) p"
    unfolding Cons [symmetric] by (simp add: startsWith_def)
  then have "replace_first p [] (c # cs) = drop (length p) (c # cs)"
    by simp
  also have "\<dots> = r"
    unfolding Cons [symmetric] by simp
  finally show ?thesis
    unfolding Cons [symmetric] .
qed

lemma split_join_words:
  "split_js CHR '' '' s = w # ws \<Longrightarrow>
   (\<forall>c \<in> set s. c \<noteq> CHR ''_'') \<Longrightarrow>
   spec_words True s = capitalize w @ concat (map (\<lambda>x. CHR '' '' # x) (map capitalize ws)) \<and>
   spec_words False s = w @ concat (map (\<lambda>x. CHR '' '' # x) (map capitalize ws))"
proof (induction s arbitrary: w ws)
  case Nil
  then show ?case by (simp add: capitalize_def toUpperCase_def substring1_def)
next
  case (Cons c cs)
  obtain v vs where sp: "split_js CHR '' '' cs = v # vs"
    using split_js_not_empty by (cases "split_js CHR '' '' cs") auto
  from Cons.prems(2) have no_us: "\<forall>c \<in> set cs. c \<noteq> CHR ''_''" and c_us: "c \<noteq> CHR ''_''" by auto
  note ih = Cons.IH [OF sp no_us]
  show ?case
  proof (cases "c = CHR '' ''")
    case True
    with Cons.prems(1) sp have "w = []" "ws = v # vs" by auto
    with True ih show ?thesis
      by (simp add: capitalize_def toUpperCase_def substring1_def)
  next
    case False
    with Cons.prems(1) sp have "w = c # v" "ws = vs" by auto
    with False c_us ih show ?thesis
      by (simp add: capitalize_def toUpperCase_def substring1_def)
  qed
qed

lemma spec_words_underscore:
  "spec_words first s = spec_words first (replace_all_char CHR ''_'' CHR '' '' s)"
  by (induction first s rule: spec_words.induct) (auto simp: replace_all_char_def)

lemma reason_label_refines: "reason_label (''reason_'' @ rest) = spec_label (''reason_'' @ rest)"
proof -
  let ?t = "replace_all_char CHR ''_'' CHR '' '' rest"
  obtain w ws where sp: "split_js CHR '' '' ?t = w # ws"
    using split_js_not_empty by (cases "split_js CHR '' '' ?t") auto
  have no_us: "\<forall>c \<in> set ?t. c \<noteq> CHR ''_''"
    by (auto simp: replace_all_char_def)
  have "spec_words True ?t =
      capitalize w @ concat (map (\<lambda>x. CHR '' '' # x) (map capitalize ws))"
    using split_join_words [OF sp no_us] by (rule conjunct1)
  also have "\<dots> = join_js CHR '' '' (map capitalize (split_js CHR '' '' ?t))"
    unfolding sp by (simp add: join_js_def)
  finally have "join_js CHR '' '' (map capitalize (split_js CHR '' '' ?t)) = spec_words True rest"
    using spec_words_underscore [of True rest] by simp
  moreover have "replace_first ''reason_'' [] (''reason_'' @ rest) = rest"
    by (rule replace_first_prefix)
  moreover have "drop (length ''reason_'') (''reason_'' @ rest) = rest"
    by simp
  ultimately show ?thesis
    unfolding reason_label_def spec_label_def by (simp only:)
qed

section \<open>Facts about the classifier and the report\<close>

lemma classify_failure:
  "try_block getChat link = Inl message \<Longrightarrow> classify getChat link = catch_block link"
  by (simp add: classify_def)

lemma chat_id_catch_block:
  "chat_id (catch_block link) = Str ''None (Please find using @userinfobot or similar)''"
  by (simp add: catch_block_def defaults_def Let_def)

lemma try_block_cases:
  "try_block getChat link = Inl message \<longleftrightarrow>
     chatIdentifier link = Inl message \<or>
     (\<exists>ident. chatIdentifier link = Inr ident \<and> getChat ident = Inl message)"
  by (auto simp: try_block_def split: sum.splits)

lemma try_block_success:
  "try_block getChat link = Inr c \<longleftrightarrow>
     (\<exists>ident info. chatIdentifier link = Inr ident \<and> getChat ident = Inr info \<and>
        c = from_chatInfo info)"
  by (auto simp: try_block_def split: sum.splits)

lemma generateReport_eq:
  "generateReport getChat s =
     (empty_session,
      [ReplyWithHTML (reportText (classify getChat (or_else (reportLink s) ''N/A''))
         (or_else (reportLink s) ''N/A'') (or_else (reasonType s) ''User Provided''))])"
  by (simp add: generateReport_def Let_def)

text \<open>The statements of \<^verbatim>\<open>generateReport\<close> one after the other give the function.\<close>

lemma generateReport_stages:
  "generateReport getChat s =
     (ctx_session (clear_session (synthesize (classify_step getChat (read_session s)))),
      outbox (clear_session (synthesize (classify_step getChat (read_session s)))))"
  by (simp add: generateReport_eq clear_session_def synthesize_def classify_step_def
      read_session_def)

section \<open>Facts about the handlers\<close>

text \<open>
  Single steps of the dialogue, as \<open>handle\<close> takes them: the command \<^verbatim>\<open>/report\<close> outside a
  scene, a text in each scene, a button press in \<^verbatim>\<open>getReason\<close>, and \<^verbatim>\<open>/cancel\<close> outside a
  scene, where the handler of line 213 is reached.
\<close>

lemma chatType_catch_block:
  "chatType (catch_block link) \<in>
     set [''Unknown'', ''Group'', ''Bot/Channel (Username)'', ''Bot/Channel (Link)'']"
  by (simp add: catch_block_def defaults_def Let_def)

lemma isNaN_12345: "\<not> isNaN ''12345''"
  by (simp add: isNaN_def trim_def is_space_def non_decimal_def unsigned_decimal_def
      is_digit_def exponent_part_def)

lemma isNaN_words: "isNaN ''not a link''"
  by (simp add: isNaN_def trim_def is_space_def non_decimal_def unsigned_decimal_def
      is_digit_def exponent_part_def)

lemma generateReport_ignores_detailedReason:
  "generateReport getChat (s\<lparr>detailedReason := d\<rparr>) = generateReport getChat s"
  by (simp add: generateReport_eq)

lemma is_command_report: "is_command ''report'' ''/report''"
  by (simp add: is_command_def entity_char_def)

lemma is_command_not_report:
  "\<not> is_command ''start'' ''/report''" "\<not> is_command ''help'' ''/report''"
  by (simp_all add: is_command_def entity_char_def)

lemma report_when_idle:
  "scene s = None \<Longrightarrow>
   handle getChat first_name s (TextMessage ''/report'') = enter GetLink s"
  using is_command_report is_command_not_report
  by (simp add: handle_def bot_handlers_def)

lemma link_text_in_getLink:
  "scene s = Some GetLink \<Longrightarrow>
   fst (handle getChat first_name s (TextMessage text)) =
     s\<lparr>reportLink := Some (trim text), scene := Some GetReason\<rparr>"
  by (simp add: handle_def getLinkScene_def enter_def leave_def)

lemma selection_in_getReason:
  "scene s = Some GetReason \<Longrightarrow> includes_str data ''reason_'' \<Longrightarrow>
   fst (handle getChat first_name s (CallbackQuery data)) =
     s\<lparr>reasonType := Some (if data = ''reason_other'' then ''User Provided''
                             else reason_label data)\<rparr>"
  by (simp add: handle_def getReasonScene_def Let_def)

lemma text_in_getReason:
  "scene s = Some GetReason \<Longrightarrow>
   handle getChat first_name s (TextMessage text) =
     (empty_session,
      [ReplyWithHTML (reportText (classify getChat (or_else (reportLink s) ''N/A''))
         (or_else (reportLink s) ''N/A'') (or_else (reasonType s) ''User Provided''))])"
  by (simp add: handle_def getReasonScene_def generateReport_eq leave_def empty_session_def)

lemma cancel_when_idle:
  "scene s = None \<Longrightarrow>
   handle getChat first_name s (TextMessage ''/cancel'') =
     (empty_session,
      [Reply ''Report generation canceled. You can start a new one anytime with /report.''])"
  by (simp add: handle_def bot_handlers_def is_command_def entity_char_def leave_def
      empty_session_def)

lemma reason_label_spec: "startsWith data ''reason_'' \<Longrightarrow> reason_label data = spec_label data"
proof -
  assume "startsWith data ''reason_''"
  then have "data = ''reason_'' @ drop (length ''reason_'') data"
    unfolding startsWith_def by (metis append_take_drop_id)
  then show ?thesis
    using reason_label_refines by metis
qed

lemma category_in_getReason:
  assumes "scene s = Some GetReason" and "startsWith data ''reason_''"
    and "data \<noteq> ''reason_other''"
  shows "fst (handle getChat first_name s (CallbackQuery data)) =
           s\<lparr>reasonType := Some (spec_label data)\<rparr>"
proof -
  from assms(2) have "includes_str data ''reason_''"
    by (rule startsWith_includes)
  with assms(3) have "getReasonScene getChat s (CallbackQuery data) =
      Some (s\<lparr>reasonType := Some (reason_label data)\<rparr>,
            [AnswerCbQuery,
             EditMessageText (''You selected: '' @ reason_label data @
               ''. Please provide a detailed explanation now.'')])"
    unfolding getReasonScene_def by (simp add: Let_def)
  with assms(1) have "fst (handle getChat first_name s (CallbackQuery data)) =
      s\<lparr>reasonType := Some (reason_label data)\<rparr>"
    by (simp add: handle_def)
  with assms(2) show ?thesis
    by (simp only: reason_label_spec)
qed

section \<open>Properties of the classifier\<close>

text \<open>
  C1: an identifier that the code takes for a numeric id (it does not start with \<^verbatim>\<open>@\<close> and
  \<^verbatim>\<open>isNaN\<close> is false, line 106) is classified, when the lookup of the parsed number fails,
  as chat type \<^verbatim>\<open>Unknown\<close> with title \<^verbatim>\<open>None\<close> and the placeholder chat id. The
  classifier returns this value; nothing is raised. A numeric string holds no \<^verbatim>\<open>t.me/\<close>, and
  the \<^verbatim>\<open>catch\<close> block has no branch for anything else.
\<close>

theorem numeric_id_unknown:
  assumes "\<not> startsWith link ''@''" and "\<not> isNaN link"
    and "getChat (IdNum (parseInt link)) = Inl message"
  shows "classify getChat link =
           \<lparr>chatType = ''Unknown'', chatTitle = ''None'',
            chat_id = Str ''None (Please find using @userinfobot or similar)''\<rparr>"
proof -
  from assms(2) have no_slash: "CHR ''/'' \<notin> set link"
    by (rule numeric_no_slash)
  then have "\<not> startsWith link ''https://t.me/''"
    by (rule no_slash_no_link)
  with assms(1,2) have "chatIdentifier link = Inr (IdNum (parseInt link))"
    by (simp add: chatIdentifier_def)
  with assms(3) have "try_block getChat link = Inl message"
    by (simp add: try_block_def)
  then have "classify getChat link = catch_block link"
    by (rule classify_failure)
  moreover from no_slash have "\<not> includes_str link ''t.me/joinchat''" and "\<not> includes_str link ''t.me/''"
    by (rule no_slash_no_link)+
  ultimately show ?thesis
    by (simp add: catch_block_def defaults_def)
qed

theorem numeric_id_unknown_witness:
  "\<not> startsWith ''12345'' ''@'' \<and> \<not> isNaN ''12345'' \<and>
   chat_not_found (IdNum (parseInt ''12345'')) = Inl ''400: Bad Request: chat not found'' \<and>
   classify chat_not_found ''12345'' =
     \<lparr>chatType = ''Unknown'', chatTitle = ''None'',
      chat_id = Str ''None (Please find using @userinfobot or similar)''\<rparr>"
proof -
  have a: "\<not> startsWith ''12345'' ''@''" by (simp add: startsWith_def)
  have c: "chat_not_found (IdNum (parseInt ''12345'')) = Inl ''400: Bad Request: chat not found''"
    by (simp add: chat_not_found_def)
  from numeric_id_unknown [of "''12345''" chat_not_found "''400: Bad Request: chat not found''",
      OF a isNaN_12345 c] a isNaN_12345 c
  show ?thesis by simp
qed

text \<open>
  The classifier does not answer \<^verbatim>\<open>Bot/Channel (Username)\<close> for a plain \<^verbatim>\<open>@name\<close> or for a
  numeric id when the lookup fails: the test for a leading \<^verbatim>\<open>@\<close> (line 147) sits inside the
  branch for strings that include \<^verbatim>\<open>t.me/\<close> (line 136), which neither kind of identifier does.
  Both come out as \<^verbatim>\<open>Unknown\<close> with title \<^verbatim>\<open>None\<close>.
\<close>

theorem plain_identifier_counterexample:
  "chatType (classify chat_not_found ''@iPapkornBot'') = ''Unknown'' \<and>
   chatTitle (classify chat_not_found ''@iPapkornBot'') = ''None'' \<and>
   chatType (classify chat_not_found ''@iPapkornBot'') \<noteq> ''Bot/Channel (Username)'' \<and>
   chatTitle (classify chat_not_found ''@iPapkornBot'') \<noteq> ''iPapkornBot'' \<and>
   chatType (classify chat_not_found ''12345'') = ''Unknown'' \<and>
   chatTitle (classify chat_not_found ''12345'') = ''None'' \<and>
   chatType (classify chat_not_found ''12345'') \<noteq> ''Bot/Channel (Username)''"
proof -
  have "try_block chat_not_found ''@iPapkornBot'' = Inl ''400: Bad Request: chat not found''"
    by (simp add: try_block_def chatIdentifier_def startsWith_def chat_not_found_def)
  then have "classify chat_not_found ''@iPapkornBot'' = catch_block ''@iPapkornBot''"
    by (rule classify_failure)
  moreover have "catch_block ''@iPapkornBot'' = defaults"
    by (simp add: catch_block_def startsWith_def)
  moreover have "try_block chat_not_found ''12345'' = Inl ''400: Bad Request: chat not found''"
    using isNaN_12345
    by (simp add: try_block_def chatIdentifier_def startsWith_def chat_not_found_def)
  then have "classify chat_not_found ''12345'' = catch_block ''12345''"
    by (rule classify_failure)
  moreover have "catch_block ''12345'' = defaults"
    by (simp add: catch_block_def startsWith_def)
  ultimately show ?thesis
    by (simp add: defaults_def)
qed

text \<open>
  C5: when the identifier is well formed and the resolver answers with a record, the
  chat id of the classification is the record's id; the title is the record's title when
  that is present and not empty, and \<^verbatim>\<open>None\<close> when it is absent or empty (line 119); the
  type is \<^verbatim>\<open>Channel\<close> for \<^verbatim>\<open>channel\<close>, \<^verbatim>\<open>Group\<close> for \<^verbatim>\<open>group\<close> and \<^verbatim>\<open>supergroup\<close>,
  \<^verbatim>\<open>Private Chat (User)\<close> for \<^verbatim>\<open>private\<close>, and otherwise \<^verbatim>\<open>Bot\<close> when the record has a
  username and \<^verbatim>\<open>is_bot\<close> is true. The title and the id stand in their lines of the report.
\<close>

theorem resolver_success_mapping:
  assumes "chatIdentifier link = Inr ident" and "getChat ident = Inr info"
    and "c = classify getChat link"
  shows "chat_id c = Num (info_id info) \<and>
    (\<forall>t. info_title info = Some t \<and> t \<noteq> [] \<longrightarrow> chatTitle c = t) \<and>
    (info_title info = None \<or> info_title info = Some [] \<longrightarrow> chatTitle c = ''None'') \<and>
    (info_type info = ''channel'' \<longrightarrow> chatType c = ''Channel'') \<and>
    (info_type info = ''group'' \<or> info_type info = ''supergroup'' \<longrightarrow> chatType c = ''Group'') \<and>
    (info_type info = ''private'' \<longrightarrow> chatType c = ''Private Chat (User)'') \<and>
    (info_type info \<notin> set [''channel'', ''group'', ''supergroup'', ''private''] \<and>
     (\<exists>u. info_username info = Some u \<and> u \<noteq> []) \<and> info_is_bot info = Some True \<longrightarrow>
       chatType c = ''Bot'') \<and>
    report_lines c link reason ! 3 = ''<b>'' @ emoji_speech @ ''Chat Title:</b> '' @ chatTitle c @ nl \<and>
    report_lines c link reason ! 4 =
      ''<b>'' @ emoji_speech @ ''Chat ID:</b> '' @ int_to_string (info_id info) @ nl"
proof -
  from assms(1,2) have "try_block getChat link = Inr (from_chatInfo info)"
    by (simp add: try_block_def)
  with assms(3) have c: "c = from_chatInfo info"
    by (simp add: classify_def)
  have id: "chat_id c = Num (info_id info)"
    by (simp add: c from_chatInfo_def)
  have title: "chatTitle c = or_else (info_title info) ''None''"
    by (simp add: c from_chatInfo_def)
  have "\<forall>t. info_title info = Some t \<and> t \<noteq> [] \<longrightarrow> chatTitle c = t"
    by (simp add: title)
  moreover have "info_title info = None \<or> info_title info = Some [] \<longrightarrow> chatTitle c = ''None''"
    by (auto simp: title)
  moreover have "info_type info = ''channel'' \<longrightarrow> chatType c = ''Channel''"
    by (simp add: c from_chatInfo_def)
  moreover have "info_type info = ''group'' \<or> info_type info = ''supergroup'' \<longrightarrow>
      chatType c = ''Group''"
    by (auto simp: c from_chatInfo_def)
  moreover have "info_type info = ''private'' \<longrightarrow> chatType c = ''Private Chat (User)''"
    by (simp add: c from_chatInfo_def)
  moreover have "info_type info \<notin> set [''channel'', ''group'', ''supergroup'', ''private''] \<and>
     (\<exists>u. info_username info = Some u \<and> u \<noteq> []) \<and> info_is_bot info = Some True \<longrightarrow>
       chatType c = ''Bot''"
  proof (intro impI, elim conjE exE)
    fix u
    assume "info_type info \<notin> set [''channel'', ''group'', ''supergroup'', ''private'']"
      and "info_username info = Some u" and "u \<noteq> []" and "info_is_bot info = Some True"
    then show "chatType c = ''Bot''"
      unfolding c from_chatInfo_def by simp
  qed
  moreover have "report_lines c link reason ! 3 =
      ''<b>'' @ emoji_speech @ ''Chat Title:</b> '' @ chatTitle c @ nl"
    by (simp add: report_lines_def)
  moreover have "report_lines c link reason ! 4 =
      ''<b>'' @ emoji_speech @ ''Chat ID:</b> '' @ int_to_string (info_id info) @ nl"
    by (simp add: report_lines_def id)
  ultimately show ?thesis
    using id by blast
qed

theorem resolver_success_mapping_witness:
  "chatIdentifier ''@iPapkornBot'' = Inr (IdStr ''@iPapkornBot'') \<and>
   classify
     (found_chat \<lparr>info_id = 42, info_title = Some ''Spam Bot'', info_type = ''supergroup'',
                  info_username = Some ''iPapkornBot'', info_is_bot = None\<rparr>)
     ''@iPapkornBot'' = \<lparr>chatType = ''Group'', chatTitle = ''Spam Bot'', chat_id = Num 42\<rparr> \<and>
   classify
     (found_chat \<lparr>info_id = - 1001234567890, info_title = Some ''Free Movies'',
                  info_type = ''channel'', info_username = None, info_is_bot = None\<rparr>)
     ''@iPapkornBot'' =
     \<lparr>chatType = ''Channel'', chatTitle = ''Free Movies'', chat_id = Num (- 1001234567890)\<rparr> \<and>
   classify
     (found_chat \<lparr>info_id = 7, info_title = None, info_type = ''private'',
                  info_username = Some ''iPapkornBot'', info_is_bot = None\<rparr>)
     ''@iPapkornBot'' =
     \<lparr>chatType = ''Private Chat (User)'', chatTitle = ''None'', chat_id = Num 7\<rparr> \<and>
   classify
     (found_chat \<lparr>info_id = 8, info_title = Some [], info_type = ''bot'',
                  info_username = Some ''iPapkornBot'', info_is_bot = Some True\<rparr>)
     ''@iPapkornBot'' = \<lparr>chatType = ''Bot'', chatTitle = ''None'', chat_id = Num 8\<rparr> \<and>
   report_lines
     (classify
       (found_chat \<lparr>info_id = 42, info_title = Some ''Spam Bot'', info_type = ''supergroup'',
                    info_username = Some ''iPapkornBot'', info_is_bot = None\<rparr>)
       ''@iPapkornBot'') ''@iPapkornBot'' ''Spam'' ! 4 =
     ''<b>'' @ emoji_speech @ ''Chat ID:</b> 42'' @ nl"
proof -
  let ?group = "\<lparr>info_id = 42, info_title = Some ''Spam Bot'', info_type = ''supergroup'',
    info_username = Some ''iPapkornBot'', info_is_bot = None\<rparr>"
  let ?channel = "\<lparr>info_id = - 1001234567890, info_title = Some ''Free Movies'',
    info_type = ''channel'', info_username = None, info_is_bot = None\<rparr>"
  let ?private = "\<lparr>info_id = 7, info_title = None, info_type = ''private'',
    info_username = Some ''iPapkornBot'', info_is_bot = None\<rparr>"
  let ?bot = "\<lparr>info_id = 8, info_title = Some [], info_type = ''bot'',
    info_username = Some ''iPapkornBot'', info_is_bot = Some True\<rparr>"
  have ident: "chatIdentifier ''@iPapkornBot'' = Inr (IdStr ''@iPapkornBot'')"
    by (simp add: chatIdentifier_def startsWith_def)
  have found: "found_chat info (IdStr ''@iPapkornBot'') = Inr info" for info
    by (simp add: found_chat_def)
  have digits: "int_to_string 42 = ''42''"
    by (simp add: int_to_string_def nat_digits.simps)
  note grp = resolver_success_mapping
    [of "''@iPapkornBot''" "IdStr ''@iPapkornBot''" "found_chat ?group" "?group"
      "classify (found_chat ?group) ''@iPapkornBot''" "''Spam''", OF ident found refl]
  note chan = resolver_success_mapping
    [of "''@iPapkornBot''" "IdStr ''@iPapkornBot''" "found_chat ?channel" "?channel"
      "classify (found_chat ?channel) ''@iPapkornBot''" "''Spam''", OF ident found refl]
  note priv = resolver_success_mapping
    [of "''@iPapkornBot''" "IdStr ''@iPapkornBot''" "found_chat ?private" "?private"
      "classify (found_chat ?private) ''@iPapkornBot''" "''Spam''", OF ident found refl]
  note bt = resolver_success_mapping
    [of "''@iPapkornBot''" "IdStr ''@iPapkornBot''" "found_chat ?bot" "?bot"
      "classify (found_chat ?bot) ''@iPapkornBot''" "''Spam''", OF ident found refl]
  have "classify (found_chat ?group) ''@iPapkornBot'' =
      \<lparr>chatType = ''Group'', chatTitle = ''Spam Bot'', chat_id = Num 42\<rparr>"
    using grp by (intro classification.equality) simp_all
  moreover have "classify (found_chat ?channel) ''@iPapkornBot'' =
      \<lparr>chatType = ''Channel'', chatTitle = ''Free Movies'', chat_id = Num (- 1001234567890)\<rparr>"
    using chan by (intro classification.equality) simp_all
  moreover have "classify (found_chat ?private) ''@iPapkornBot'' =
      \<lparr>chatType = ''Private Chat (User)'', chatTitle = ''None'', chat_id = Num 7\<rparr>"
    using priv by (intro classification.equality) simp_all
  moreover have "classify (found_chat ?bot) ''@iPapkornBot'' =
      \<lparr>chatType = ''Bot'', chatTitle = ''None'', chat_id = Num 8\<rparr>"
    using bt by (intro classification.equality) simp_all
  moreover have "report_lines (classify (found_chat ?group) ''@iPapkornBot'')
      ''@iPapkornBot'' ''Spam'' ! 4 = ''<b>'' @ emoji_speech @ ''Chat ID:</b> 42'' @ nl"
    using grp digits by simp
  ultimately show ?thesis
    using ident by simp
qed

text \<open>
  The returned title does not always pass through unchanged: an empty title, and the
  missing title of a private chat, are reported as \<^verbatim>\<open>None\<close>.
\<close>

theorem title_fallback_counterexample:
  "chatTitle (classify
      (found_chat \<lparr>info_id = 42, info_title = Some [], info_type = ''supergroup'',
                   info_username = None, info_is_bot = None\<rparr>) ''@iPapkornBot'') = ''None'' \<and>
   chatTitle (classify
      (found_chat \<lparr>info_id = 42, info_title = None, info_type = ''private'',
                   info_username = Some ''iPapkornBot'', info_is_bot = Some True\<rparr>)
      ''@iPapkornBot'') = ''None''"
  by (simp add: classify_def try_block_def chatIdentifier_def startsWith_def found_chat_def
      from_chatInfo_def)

text \<open>
  C6: whatever the identifier and the resolver, classification returns a result. When
  the identifier has no shape that can be looked up, or the lookup of a well-formed one
  fails, the result is the one of the \<^verbatim>\<open>catch\<close> block, with one of its four chat types.
  \<^verbatim>\<open>generateReport\<close> then sends exactly one message, the report, and empties the session; in
  the scene \<^verbatim>\<open>getReason\<close> every text message is answered by that report and by nothing else.
\<close>

theorem lookup_failure_recovered:
  "(\<forall>message. chatIdentifier link = Inl message \<longrightarrow>
      classify getChat link = catch_block link) \<and>
   (\<forall>ident message. chatIdentifier link = Inr ident \<and> getChat ident = Inl message \<longrightarrow>
      classify getChat link = catch_block link) \<and>
   chatType (catch_block link) \<in>
     set [''Unknown'', ''Group'', ''Bot/Channel (Username)'', ''Bot/Channel (Link)''] \<and>
   generateReport getChat s =
     (empty_session,
      [ReplyWithHTML (reportText (classify getChat (or_else (reportLink s) ''N/A''))
         (or_else (reportLink s) ''N/A'') (or_else (reasonType s) ''User Provided''))]) \<and>
   (scene s = Some GetReason \<longrightarrow>
      handle getChat first_name s (TextMessage text) =
        (empty_session,
         [ReplyWithHTML (reportText (classify getChat (or_else (reportLink s) ''N/A''))
            (or_else (reportLink s) ''N/A'') (or_else (reasonType s) ''User Provided''))]))"
proof -
  have "\<forall>message. chatIdentifier link = Inl message \<longrightarrow>
      classify getChat link = catch_block link"
    by (simp add: classify_def try_block_def)
  moreover have "\<forall>ident message. chatIdentifier link = Inr ident \<and> getChat ident = Inl message \<longrightarrow>
      classify getChat link = catch_block link"
    by (simp add: classify_def try_block_def)
  ultimately show ?thesis
    using chatType_catch_block generateReport_eq text_in_getReason by blast
qed

theorem lookup_failure_recovered_witness:
  "chatIdentifier ''not a link'' =
     Inl ''Invalid format for direct chat lookup. Please use @username or a numeric ID.'' \<and>
   classify chat_not_found ''not a link'' = defaults \<and>
   chatIdentifier ''https://t.me/spam_channel'' = Inr (IdStr ''@spam_channel'') \<and>
   chat_not_found (IdStr ''@spam_channel'') = Inl ''400: Bad Request: chat not found'' \<and>
   classify chat_not_found ''https://t.me/spam_channel'' =
     defaults\<lparr>chatType := ''Bot/Channel (Link)'', chatTitle := ''spam_channel''\<rparr> \<and>
   handle chat_not_found None
     \<lparr>scene = Some GetReason, reportLink = Some ''not a link'', reasonType = Some ''Spam'',
      detailedReason = None\<rparr> (TextMessage ''it sends phishing links'') =
     (empty_session, [ReplyWithHTML (reportText defaults ''not a link'' ''Spam'')])"
proof -
  let ?s = "\<lparr>scene = Some GetReason, reportLink = Some ''not a link'',
    reasonType = Some ''Spam'', detailedReason = None\<rparr>"
  have a: "chatIdentifier ''not a link'' =
      Inl ''Invalid format for direct chat lookup. Please use @username or a numeric ID.''"
    using isNaN_words by (simp add: chatIdentifier_def startsWith_def)
  have b: "chatIdentifier ''https://t.me/spam_channel'' = Inr (IdStr ''@spam_channel'')"
    by (simp add: chatIdentifier_def startsWith_def)
  have c: "chat_not_found (IdStr ''@spam_channel'') = Inl ''400: Bad Request: chat not found''"
    by (simp add: chat_not_found_def)
  have d: "catch_block ''not a link'' = defaults"
    by (simp add: catch_block_def startsWith_def)
  have e: "catch_block ''https://t.me/spam_channel'' =
      defaults\<lparr>chatType := ''Bot/Channel (Link)'', chatTitle := ''spam_channel''\<rparr>"
    by (simp add: catch_block_def startsWith_def)
  have f: "scene ?s = Some GetReason" by simp
  note first = lookup_failure_recovered
    [of "''not a link''" chat_not_found "?s" None "''it sends phishing links''"]
  note second = lookup_failure_recovered
    [of "''https://t.me/spam_channel''" chat_not_found "?s" None "''it sends phishing links''"]
  from first a d have g: "classify chat_not_found ''not a link'' = defaults"
    by simp
  from second b c e have h: "classify chat_not_found ''https://t.me/spam_channel'' =
      defaults\<lparr>chatType := ''Bot/Channel (Link)'', chatTitle := ''spam_channel''\<rparr>"
    by simp
  from first f g have "handle chat_not_found None ?s (TextMessage ''it sends phishing links'') =
      (empty_session, [ReplyWithHTML (reportText defaults ''not a link'' ''Spam'')])"
    by simp
  with a b c g h show ?thesis
    by simp
qed

text \<open>
  C8: for the identifier \<^verbatim>\<open>https://t.me/joinchat/abc\<close>, when the lookup of \<^verbatim>\<open>@abc\<close> fails,
  the classifier answers chat type \<^verbatim>\<open>Group\<close>.
\<close>

theorem joinchat_is_group:
  assumes "getChat (IdStr ''@abc'') = Inl message"
  shows "chatType (classify getChat ''https://t.me/joinchat/abc'') = ''Group''"
proof -
  have "chatIdentifier ''https://t.me/joinchat/abc'' = Inr (IdStr ''@abc'')"
    by (simp add: chatIdentifier_def startsWith_def)
  then have "try_block getChat ''https://t.me/joinchat/abc'' = Inl message"
    using assms by (simp add: try_block_def)
  moreover have "includes_str ''https://t.me/joinchat/abc'' ''t.me/joinchat''"
    by (simp add: startsWith_def)
  ultimately show ?thesis
    by (simp add: classify_def catch_block_def)
qed

theorem joinchat_is_group_witness:
  "chat_not_found (IdStr ''@abc'') = Inl ''400: Bad Request: chat not found'' \<and>
   chatType (classify chat_not_found ''https://t.me/joinchat/abc'') = ''Group''"
  using joinchat_is_group [of chat_not_found "''400: Bad Request: chat not found''"]
  by (simp add: chat_not_found_def)

text \<open>
  C10: when the \<^verbatim>\<open>try\<close> block fails, the chat id of the classification is the placeholder
  and the Chat ID line of the report shows it; and a number as chat id means that the
  resolver answered the lookup with a record that carries this number as its id.
\<close>

theorem chat_id_placeholder_on_failure:
  "(\<forall>message. try_block getChat link = Inl message \<longrightarrow>
      chat_id (classify getChat link) = Str ''None (Please find using @userinfobot or similar)'' \<and>
      report_lines (classify getChat link) link reason ! 4 =
        ''<b>'' @ emoji_speech @
        ''Chat ID:</b> None (Please find using @userinfobot or similar)'' @ nl) \<and>
   (\<forall>n. chat_id (classify getChat link) = Num n \<longrightarrow>
      (\<exists>ident info. chatIdentifier link = Inr ident \<and> getChat ident = Inr info \<and>
         info_id info = n))"
proof (intro conjI allI impI)
  fix message
  assume fails: "try_block getChat link = Inl message"
  then show id: "chat_id (classify getChat link) =
      Str ''None (Please find using @userinfobot or similar)''"
    by (simp add: classify_failure chat_id_catch_block)
  then show "report_lines (classify getChat link) link reason ! 4 =
      ''<b>'' @ emoji_speech @
      ''Chat ID:</b> None (Please find using @userinfobot or similar)'' @ nl"
    by (simp add: report_lines_def)
next
  fix n
  assume num: "chat_id (classify getChat link) = Num n"
  show "\<exists>ident info. chatIdentifier link = Inr ident \<and> getChat ident = Inr info \<and>
      info_id info = n"
  proof (cases "try_block getChat link")
    case (Inl message)
    with num show ?thesis
      by (simp add: classify_failure chat_id_catch_block)
  next
    case (Inr c)
    then obtain ident info where "chatIdentifier link = Inr ident" "getChat ident = Inr info"
      "c = from_chatInfo info"
      using try_block_success by blast
    moreover from Inr num have "chat_id c = Num n"
      by (simp add: classify_def)
    ultimately show ?thesis
      by (auto simp: from_chatInfo_def)
  qed
qed

theorem chat_id_placeholder_on_failure_witness:
  "try_block chat_not_found ''@iPapkornBot'' = Inl ''400: Bad Request: chat not found'' \<and>
   chat_id (classify chat_not_found ''@iPapkornBot'') =
     Str ''None (Please find using @userinfobot or similar)'' \<and>
   report_lines (classify chat_not_found ''@iPapkornBot'') ''@iPapkornBot'' ''Spam'' ! 4 =
     ''<b>'' @ emoji_speech @
     ''Chat ID:</b> None (Please find using @userinfobot or similar)'' @ nl \<and>
   chat_id (classify
     (found_chat \<lparr>info_id = 42, info_title = Some ''Spam Bot'', info_type = ''supergroup'',
                  info_username = Some ''iPapkornBot'', info_is_bot = None\<rparr>)
     ''@iPapkornBot'') = Num 42 \<and>
   (\<exists>ident info. chatIdentifier ''@iPapkornBot'' = Inr ident \<and>
      found_chat \<lparr>info_id = 42, info_title = Some ''Spam Bot'', info_type = ''supergroup'',
                   info_username = Some ''iPapkornBot'', info_is_bot = None\<rparr> ident = Inr info \<and>
      info_id info = 42)"
proof -
  let ?group = "\<lparr>info_id = 42, info_title = Some ''Spam Bot'', info_type = ''supergroup'',
    info_username = Some ''iPapkornBot'', info_is_bot = None\<rparr>"
  have fails: "try_block chat_not_found ''@iPapkornBot'' = Inl ''400: Bad Request: chat not found''"
    by (simp add: try_block_def chatIdentifier_def startsWith_def chat_not_found_def)
  have num: "chat_id (classify (found_chat ?group) ''@iPapkornBot'') = Num 42"
    by (simp add: classify_def try_block_def chatIdentifier_def startsWith_def found_chat_def
        from_chatInfo_def)
  from chat_id_placeholder_on_failure [of chat_not_found "''@iPapkornBot''" "''Spam''"] fails
  have "chat_id (classify chat_not_found ''@iPapkornBot'') =
      Str ''None (Please find using @userinfobot or similar)'' \<and>
    report_lines (classify chat_not_found ''@iPapkornBot'') ''@iPapkornBot'' ''Spam'' ! 4 =
      ''<b>'' @ emoji_speech @
      ''Chat ID:</b> None (Please find using @userinfobot or similar)'' @ nl"
    by blast
  moreover from chat_id_placeholder_on_failure [of "found_chat ?group" "''@iPapkornBot''" "''Spam''"] num
  have "\<exists>ident info. chatIdentifier ''@iPapkornBot'' = Inr ident \<and>
      found_chat ?group ident = Inr info \<and> info_id info = 42"
    by blast
  ultimately show ?thesis
    using fails num by blast
qed

section \<open>Properties of the report\<close>

text \<open>
  C3: the report built from a session does not hold the user's explanation.
  \<^verbatim>\<open>generateReport\<close> reads \<^verbatim>\<open>detailedReason\<close> into a constant (line 87) that the template of
  lines 155 to 168 never uses, so the reply is the same for every explanation
  (\<open>generateReport_ignores_detailedReason\<close>). Here the session holds the link
  \<^verbatim>\<open>@iPapkornBot\<close>, the category \<^verbatim>\<open>Spam\<close> and the explanation \<^verbatim>\<open>it sends phishing links\<close>; the
  lookup fails. The report is the template for the defaults, and the explanation is no
  part of it.
\<close>

theorem detailedReason_missing_from_report:
  "generateReport chat_not_found
     \<lparr>scene = Some GetReason, reportLink = Some ''@iPapkornBot'', reasonType = Some ''Spam'',
      detailedReason = Some ''it sends phishing links''\<rparr> =
   (empty_session, [ReplyWithHTML (reportText defaults ''@iPapkornBot'' ''Spam'')]) \<and>
   \<not> includes_str (reportText defaults ''@iPapkornBot'' ''Spam'') ''it sends phishing links''"
proof -
  have "try_block chat_not_found ''@iPapkornBot'' = Inl ''400: Bad Request: chat not found''"
    by (simp add: try_block_def chatIdentifier_def startsWith_def chat_not_found_def)
  then have "classify chat_not_found ''@iPapkornBot'' = catch_block ''@iPapkornBot''"
    by (rule classify_failure)
  moreover have "catch_block ''@iPapkornBot'' = defaults"
    by (simp add: catch_block_def startsWith_def)
  ultimately have "generateReport chat_not_found
     \<lparr>scene = Some GetReason, reportLink = Some ''@iPapkornBot'', reasonType = Some ''Spam'',
      detailedReason = Some ''it sends phishing links''\<rparr> =
   (empty_session, [ReplyWithHTML (reportText defaults ''@iPapkornBot'' ''Spam'')])"
    by (simp add: generateReport_eq)
  moreover have
    "\<not> includes_str (reportText defaults ''@iPapkornBot'' ''Spam'') ''it sends phishing links''"
    by (simp add: reportText_def report_lines_def defaults_def boilerplate_def nl_def
        emoji_memo_def emoji_speech_def emoji_map_def emoji_phone_def emoji_mail_def
        startsWith_def)
  ultimately show ?thesis
    by (rule conjI)
qed

text \<open>
  C9: the synthesizer, lines 155 to 170, is repeatable and leaves its inputs alone. Two
  frames that agree on the classification, the link and the category label get the same
  text appended to their replies, byte for byte, whatever else they hold; run twice in a
  row from one frame, the synthesizer sends the same text twice; and the frame after it is
  the frame before it but for the replies, so the session and every variable are as they
  were. The reply of \<^verbatim>\<open>generateReport\<close> is the one the synthesizer sends. The session is
  emptied by the statement after it, line 173 (\<open>generateReport_stages\<close>).
\<close>

theorem synthesizer_repeatable:
  assumes "var_class f1 = var_class f2" and "var_reportLink f1 = var_reportLink f2"
    and "var_reasonType f1 = var_reasonType f2"
  shows "(\<exists>text.
            outbox (synthesize f1) = outbox f1 @ [ReplyWithHTML text] \<and>
            outbox (synthesize f2) = outbox f2 @ [ReplyWithHTML text] \<and>
            outbox (synthesize (synthesize f1)) =
              outbox f1 @ [ReplyWithHTML text, ReplyWithHTML text]) \<and>
         (synthesize f1)\<lparr>outbox := outbox f1\<rparr> = f1 \<and>
         snd (generateReport getChat s) =
           outbox (synthesize (classify_step getChat (read_session s)))"
proof (intro conjI)
  let ?text = "reportText (var_class f1) (var_reportLink f1) (var_reasonType f1)"
  have "outbox (synthesize f1) = outbox f1 @ [ReplyWithHTML ?text]"
    by (simp add: synthesize_def)
  moreover have "outbox (synthesize f2) = outbox f2 @ [ReplyWithHTML ?text]"
    using assms by (simp add: synthesize_def)
  moreover have "outbox (synthesize (synthesize f1)) =
      outbox f1 @ [ReplyWithHTML ?text, ReplyWithHTML ?text]"
    by (simp add: synthesize_def)
  ultimately show "\<exists>text.
      outbox (synthesize f1) = outbox f1 @ [ReplyWithHTML text] \<and>
      outbox (synthesize f2) = outbox f2 @ [ReplyWithHTML text] \<and>
      outbox (synthesize (synthesize f1)) =
        outbox f1 @ [ReplyWithHTML text, ReplyWithHTML text]"
    by blast
  show "(synthesize f1)\<lparr>outbox := outbox f1\<rparr> = f1"
    by (simp add: synthesize_def)
  show "snd (generateReport getChat s) =
      outbox (synthesize (classify_step getChat (read_session s)))"
    by (simp add: generateReport_stages clear_session_def)
qed

theorem synthesizer_repeatable_witness:
  "var_class
     \<lparr>ctx_session = \<lparr>scene = Some GetReason, reportLink = Some ''@iPapkornBot'',
                      reasonType = Some ''Spam'',
                      detailedReason = Some ''it sends phishing links''\<rparr>,
      var_reportLink = ''@iPapkornBot'', var_reasonType = ''Spam'',
      var_detailedReason = ''it sends phishing links'', var_class = defaults, outbox = []\<rparr> =
   var_class
     \<lparr>ctx_session = empty_session, var_reportLink = ''@iPapkornBot'', var_reasonType = ''Spam'',
      var_detailedReason = ''No detailed explanation provided.'', var_class = defaults,
      outbox = [AnswerCbQuery]\<rparr> \<and>
   outbox (synthesize
     \<lparr>ctx_session = empty_session, var_reportLink = ''@iPapkornBot'', var_reasonType = ''Spam'',
      var_detailedReason = ''No detailed explanation provided.'', var_class = defaults,
      outbox = [AnswerCbQuery]\<rparr>) =
   AnswerCbQuery # outbox (synthesize
     \<lparr>ctx_session = \<lparr>scene = Some GetReason, reportLink = Some ''@iPapkornBot'',
                      reasonType = Some ''Spam'',
                      detailedReason = Some ''it sends phishing links''\<rparr>,
      var_reportLink = ''@iPapkornBot'', var_reasonType = ''Spam'',
      var_detailedReason = ''it sends phishing links'', var_class = defaults, outbox = []\<rparr>) \<and>
   outbox (synthesize (synthesize
     \<lparr>ctx_session = \<lparr>scene = Some GetReason, reportLink = Some ''@iPapkornBot'',
                      reasonType = Some ''Spam'',
                      detailedReason = Some ''it sends phishing links''\<rparr>,
      var_reportLink = ''@iPapkornBot'', var_reasonType = ''Spam'',
      var_detailedReason = ''it sends phishing links'', var_class = defaults, outbox = []\<rparr>)) =
   [ReplyWithHTML (reportText defaults ''@iPapkornBot'' ''Spam''),
    ReplyWithHTML (reportText defaults ''@iPapkornBot'' ''Spam'')] \<and>
   ctx_session (synthesize
     \<lparr>ctx_session = \<lparr>scene = Some GetReason, reportLink = Some ''@iPapkornBot'',
                      reasonType = Some ''Spam'',
                      detailedReason = Some ''it sends phishing links''\<rparr>,
      var_reportLink = ''@iPapkornBot'', var_reasonType = ''Spam'',
      var_detailedReason = ''it sends phishing links'', var_class = defaults, outbox = []\<rparr>) =
   \<lparr>scene = Some GetReason, reportLink = Some ''@iPapkornBot'', reasonType = Some ''Spam'',
    detailedReason = Some ''it sends phishing links''\<rparr>"
proof -
  let ?s = "\<lparr>scene = Some GetReason, reportLink = Some ''@iPapkornBot'',
    reasonType = Some ''Spam'', detailedReason = Some ''it sends phishing links''\<rparr>"
  let ?f1 = "\<lparr>ctx_session = ?s, var_reportLink = ''@iPapkornBot'', var_reasonType = ''Spam'',
    var_detailedReason = ''it sends phishing links'', var_class = defaults, outbox = []\<rparr>"
  let ?f2 = "\<lparr>ctx_session = empty_session, var_reportLink = ''@iPapkornBot'',
    var_reasonType = ''Spam'', var_detailedReason = ''No detailed explanation provided.'',
    var_class = defaults, outbox = [AnswerCbQuery]\<rparr>"
  have a: "var_class ?f1 = var_class ?f2" by simp
  have b: "var_reportLink ?f1 = var_reportLink ?f2" by simp
  have c: "var_reasonType ?f1 = var_reasonType ?f2" by simp
  note inst = synthesizer_repeatable [of "?f1" "?f2" chat_not_found "?s", OF a b c]
  from inst obtain html where
    t1: "outbox (synthesize ?f1) = outbox ?f1 @ [ReplyWithHTML html]" and
    t2: "outbox (synthesize ?f2) = outbox ?f2 @ [ReplyWithHTML html]" and
    t3: "outbox (synthesize (synthesize ?f1)) =
      outbox ?f1 @ [ReplyWithHTML html, ReplyWithHTML html]"
    by blast
  from inst have keep: "(synthesize ?f1)\<lparr>outbox := outbox ?f1\<rparr> = ?f1"
    by blast
  have "outbox (synthesize ?f1) =
      [ReplyWithHTML (reportText defaults ''@iPapkornBot'' ''Spam'')]"
    by (simp add: synthesize_def)
  with t1 have html: "html = reportText defaults ''@iPapkornBot'' ''Spam''"
    by simp
  from t1 t2 have "outbox (synthesize ?f2) = AnswerCbQuery # outbox (synthesize ?f1)"
    by simp
  moreover from t3 html have "outbox (synthesize (synthesize ?f1)) =
      [ReplyWithHTML (reportText defaults ''@iPapkornBot'' ''Spam''),
       ReplyWithHTML (reportText defaults ''@iPapkornBot'' ''Spam'')]"
    by simp
  moreover have "ctx_session (synthesize ?f1) = ?s"
  proof -
    have "ctx_session ((synthesize ?f1)\<lparr>outbox := outbox ?f1\<rparr>) = ctx_session ?f1"
      by (simp only: keep)
    then show ?thesis by simp
  qed
  ultimately show ?thesis
    using a by simp
qed

section \<open>Properties of the dialogue\<close>

text \<open>
  C2: \<^verbatim>\<open>/cancel\<close> inside a scene does not reach the handler of line 213. The stage
  middleware is registered before it (line 81), and the scene's filter \<^verbatim>\<open>text\<close> takes the
  message. In \<^verbatim>\<open>getLink\<close> the text \<^verbatim>\<open>/cancel\<close> is stored as the link, the category keyboard
  is sent and the scene becomes \<^verbatim>\<open>getReason\<close>; in \<^verbatim>\<open>getReason\<close> it is taken as the
  explanation and the report is sent. No acknowledgement is sent in either scene, and in
  \<^verbatim>\<open>getLink\<close> the session is not cleared. Outside a scene the command works
  (\<open>cancel_when_idle\<close>).
\<close>

theorem cancel_inside_scene_taken_as_text:
  "handle getChat first_name
     \<lparr>scene = Some GetLink, reportLink = None, reasonType = None, detailedReason = None\<rparr>
     (TextMessage ''/cancel'') =
   (\<lparr>scene = Some GetReason, reportLink = Some ''/cancel'', reasonType = None,
      detailedReason = None\<rparr>,
    [ReplyKeyboard ''Please explain why this content is illegal under EU or EU member law:''
       keyboard]) \<and>
   handle getChat first_name
     \<lparr>scene = Some GetReason, reportLink = Some ''@iPapkornBot'', reasonType = Some ''Spam'',
      detailedReason = None\<rparr>
     (TextMessage ''/cancel'') =
   (empty_session,
    [ReplyWithHTML (reportText (classify getChat ''@iPapkornBot'') ''@iPapkornBot'' ''Spam'')])"
proof -
  have "trim ''/cancel'' = ''/cancel''"
    by (simp add: trim_def is_space_def)
  then have "handle getChat first_name
     \<lparr>scene = Some GetLink, reportLink = None, reasonType = None, detailedReason = None\<rparr>
     (TextMessage ''/cancel'') =
   (\<lparr>scene = Some GetReason, reportLink = Some ''/cancel'', reasonType = None,
      detailedReason = None\<rparr>,
    [ReplyKeyboard ''Please explain why this content is illegal under EU or EU member law:''
       keyboard])"
    by (simp add: handle_def getLinkScene_def enter_def leave_def)
  moreover have "handle getChat first_name
     \<lparr>scene = Some GetReason, reportLink = Some ''@iPapkornBot'', reasonType = Some ''Spam'',
      detailedReason = None\<rparr>
     (TextMessage ''/cancel'') =
   (empty_session,
    [ReplyWithHTML (reportText (classify getChat ''@iPapkornBot'') ''@iPapkornBot'' ''Spam'')])"
    by (simp add: text_in_getReason)
  ultimately show ?thesis
    by (rule conjI)
qed

text \<open>
  C4: from the state Idle, the command \<^verbatim>\<open>/report\<close>, any text as identifier, any button
  press whose token matches \<^verbatim>\<open>reason_\<close> (the token \<^verbatim>\<open>reason_other\<close> or a category) and any
  text as explanation leave the machine in Idle with an empty session, whatever the
  resolver answers.
\<close>

theorem full_flow_ends_idle:
  assumes "scene s = None" and "includes_str data ''reason_''"
  shows "fst (run getChat first_name s
            [TextMessage ''/report'', TextMessage link, CallbackQuery data, TextMessage detail]) =
         \<lparr>scene = None, reportLink = None, reasonType = None, detailedReason = None\<rparr>"
proof -
  define s1 where "s1 = fst (handle getChat first_name s (TextMessage ''/report''))"
  define s2 where "s2 = fst (handle getChat first_name s1 (TextMessage link))"
  define s3 where "s3 = fst (handle getChat first_name s2 (CallbackQuery data))"
  define s4 where "s4 = fst (handle getChat first_name s3 (TextMessage detail))"
  have run: "fst (run getChat first_name s
      [TextMessage ''/report'', TextMessage link, CallbackQuery data, TextMessage detail]) = s4"
    by (simp add: s1_def s2_def s3_def s4_def split_beta)
  have "scene s1 = Some GetLink"
    using assms(1) by (simp add: s1_def report_when_idle enter_def)
  then have "scene s2 = Some GetReason"
    by (simp add: s2_def link_text_in_getLink)
  then have "scene s3 = Some GetReason"
    using assms(2) by (simp add: s3_def selection_in_getReason)
  then have "s4 = empty_session"
    by (simp add: s4_def text_in_getReason)
  with run show ?thesis
    by (simp add: empty_session_def)
qed

theorem full_flow_ends_idle_witness:
  "scene empty_session = None \<and> includes_str ''reason_other'' ''reason_'' \<and>
   includes_str ''reason_spam'' ''reason_'' \<and>
   fst (run chat_not_found None empty_session
          [TextMessage ''/report'', TextMessage ''@iPapkornBot'', CallbackQuery ''reason_other'',
           TextMessage ''it sends phishing links'']) =
     \<lparr>scene = None, reportLink = None, reasonType = None, detailedReason = None\<rparr> \<and>
   fst (run chat_not_found None empty_session
          [TextMessage ''/report'', TextMessage ''@iPapkornBot'', CallbackQuery ''reason_spam'',
           TextMessage ''it sends phishing links'']) =
     \<lparr>scene = None, reportLink = None, reasonType = None, detailedReason = None\<rparr>"
proof -
  have a: "scene empty_session = None" by (simp add: empty_session_def)
  have b: "includes_str ''reason_other'' ''reason_''" by (simp add: startsWith_def)
  have c: "includes_str ''reason_spam'' ''reason_''" by (simp add: startsWith_def)
  from full_flow_ends_idle [OF a b] full_flow_ends_idle [OF a c] a b c show ?thesis
    by blast
qed

text \<open>
  C7: in the scene \<^verbatim>\<open>getReason\<close>, a button press with a token that starts with \<^verbatim>\<open>reason_\<close>
  and is not \<^verbatim>\<open>reason_other\<close> stores as \<^verbatim>\<open>reasonType\<close> the label of the specification: the
  prefix stripped, underscores replaced by spaces, the first letter of every word
  capitalised. For \<^verbatim>\<open>reason_illegal_content\<close> this is \<^verbatim>\<open>Illegal Content\<close>.
\<close>

theorem category_label_stored:
  assumes "scene s = Some GetReason" and "startsWith data ''reason_''"
    and "data \<noteq> ''reason_other''"
  shows "fst (handle getChat first_name s (CallbackQuery data)) =
           s\<lparr>reasonType := Some (spec_label data)\<rparr> \<and>
         fst (handle getChat first_name s (CallbackQuery ''reason_illegal_content'')) =
           s\<lparr>reasonType := Some ''Illegal Content''\<rparr>"
proof -
  have "startsWith ''reason_illegal_content'' ''reason_''"
    by (simp add: startsWith_def)
  moreover have "''reason_illegal_content'' \<noteq> ''reason_other''"
    by simp
  moreover have "spec_label ''reason_illegal_content'' = ''Illegal Content''"
    by (simp add: spec_label_def upper_char_def)
  ultimately have "fst (handle getChat first_name s (CallbackQuery ''reason_illegal_content'')) =
      s\<lparr>reasonType := Some ''Illegal Content''\<rparr>"
    using category_in_getReason [OF assms(1), of "''reason_illegal_content''"] by simp
  with category_in_getReason [OF assms, of getChat first_name] show ?thesis
    by simp
qed

theorem category_label_stored_witness:
  "scene \<lparr>scene = Some GetReason, reportLink = Some ''@iPapkornBot'', reasonType = None,
           detailedReason = None\<rparr> = Some GetReason \<and>
   startsWith ''reason_adult_content'' ''reason_'' \<and>
   ''reason_adult_content'' \<noteq> ''reason_other'' \<and>
   fst (handle chat_not_found None
          \<lparr>scene = Some GetReason, reportLink = Some ''@iPapkornBot'', reasonType = None,
            detailedReason = None\<rparr>
          (CallbackQuery ''reason_adult_content'')) =
     \<lparr>scene = Some GetReason, reportLink = Some ''@iPapkornBot'',
      reasonType = Some ''Adult Content'', detailedReason = None\<rparr>"
proof -
  let ?s = "\<lparr>scene = Some GetReason, reportLink = Some ''@iPapkornBot'', reasonType = None,
           detailedReason = None\<rparr>"
  have a: "scene ?s = Some GetReason" by simp
  have b: "startsWith ''reason_adult_content'' ''reason_''" by (simp add: startsWith_def)
  have c: "''reason_adult_content'' \<noteq> ''reason_other''" by simp
  have d: "spec_label ''reason_adult_content'' = ''Adult Content''"
    by (simp add: spec_label_def upper_char_def)
  from category_label_stored [OF a b c, of chat_not_found None] a b c d show ?thesis
    by simp
qed

end
